theory Spec2Isabelle
  imports Main
begin

section \<open>JavaScript values, errors and the outcome of a call\<close>

text \<open>
  The build tools of \<^verbatim>\<open>index.js\<close> are adapters around external libraries. Each exported
  function is modelled as the list of effects it performs, in the order the JavaScript
  event loop performs them, for a given behaviour of the libraries it calls (the
  environment, a record of functions). An option value \<open>None\<close> stands for JavaScript's
  \<^verbatim>\<open>undefined\<close>: an omitted configuration field, or a callback argument that is not set.
\<close>

datatype jsval = JNull | JBool bool | JNum int | JStr string

datatype error = Error string | TypeError string

text \<open>
  What a call into a library does: it throws synchronously, or it later reports an error
  (the callback's first argument, or a rejected promise), or it later delivers a result.
\<close>

datatype 'a reply = Throws error | Fails error | Succeeds 'a

text \<open>
  The caller's view of one call: the promise it got back is still pending, fulfilled or
  rejected; or the call threw before returning any promise.
\<close>

datatype outcome = Pending | Fulfilled | Rejected error | Threw error

datatype event =
    ConsoleLog string
  | ConsoleWarn string
  | AddGlobal "string list" string jsval
  | Render string "(string \<times> jsval) list"
  | Pretty "string option"
  | ReadFile "string option"
  | WriteFile "string option" "string option"
  | WriteDone "string option" "error option"
  | WriteFileSync "string option" string
  | SassRenderSync string string jsval
  | Purge "string list option" "string list option" jsval
  | Autoprefix string
  | Transform string "string list"
  | Minify string "string option"
  | Resolve
  | Reject error
  | Throw error
  | Uncaught error
  | UnhandledRejection error

text \<open>
  \<open>Resolve\<close> and \<open>Reject\<close> are calls of the settling functions of the returned promise
  (for an \<^verbatim>\<open>async\<close> function: its return and its exception); \<open>Throw\<close> is an exception
  that leaves the exported function itself; \<open>Uncaught\<close> is an exception that leaves a
  library callback; \<open>UnhandledRejection\<close> is the rejection of a promise nobody observes.
  \<open>ReadFile\<close>, \<open>WriteFile\<close> and \<open>WriteFileSync\<close> are the calls of the file-system
  functions with their arguments; \<open>WriteDone\<close> is the callback of \<^verbatim>\<open>fs.writeFile\<close>
  firing with its error argument.
\<close>

fun is_file_io :: "event \<Rightarrow> bool" where
  "is_file_io (ReadFile _) = True"
| "is_file_io (WriteFile _ _) = True"
| "is_file_io (WriteDone _ _) = True"
| "is_file_io (WriteFileSync _ _) = True"
| "is_file_io _ = False"

fun is_purge :: "event \<Rightarrow> bool" where
  "is_purge (Purge _ _ _) = True"
| "is_purge _ = False"

text \<open>The overwrite of a purged file on line 103.\<close>

fun is_overwrite :: "event \<Rightarrow> bool" where
  "is_overwrite (WriteFileSync _ _) = True"
| "is_overwrite _ = False"

text \<open>
  A promise is settled by the first call of \<^verbatim>\<open>resolve\<close> or \<^verbatim>\<open>reject\<close>; later
  calls have no effect on it.
\<close>

fun settled :: "event list \<Rightarrow> outcome" where
  "settled [] = Pending"
| "settled (Resolve # _) = Fulfilled"
| "settled (Reject e # _) = Rejected e"
| "settled (Throw e # _) = Threw e"
| "settled (_ # t) = settled t"

section \<open>Configuration objects\<close>

record io_config =
  inputPath :: "string option"
  outputPath :: "string option"

record nunjucks_config = io_config +
  templates :: "string list option"
  globalVars :: "(string \<times> jsval) list option"
  data :: "(string \<times> jsval) list option"

record babel_config = io_config +
  minify :: "jsval option"

record sass_config =
  srcSassPath :: "string option"
  destCssPath :: "string option"
  sassSourceMap :: "jsval option"
  purgeCssContent :: "string list option"
  cssFilesToPurge :: "string list option"
  purgeCssSourceMap :: "jsval option"

text \<open>\<^verbatim>\<open>!x\<close> for a path: true for \<^verbatim>\<open>undefined\<close> and for the empty string.\<close>

fun falsy :: "string option \<Rightarrow> bool" where
  "falsy None = True"
| "falsy (Some s) = (s = [])"

text \<open>A destructuring default \<^verbatim>\<open>x = d\<close> applies when the field is \<^verbatim>\<open>undefined\<close>.\<close>

fun with_default :: "'a \<Rightarrow> 'a option \<Rightarrow> 'a" where
  "with_default d None = d"
| "with_default d (Some v) = v"

text \<open>A value inside a template literal.\<close>

fun show_opt :: "string option \<Rightarrow> string" where
  "show_opt None = ''undefined''"
| "show_opt (Some s) = s"

fun error_text :: "error \<Rightarrow> string" where
  "error_text (Error m) = ''Error: '' @ m"
| "error_text (TypeError m) = ''TypeError: '' @ m"

section \<open>The libraries\<close>

record sass_result =
  css :: string
  map_data :: "string option"

record purge_result =
  result_file :: "string option"
  result_css :: string

text \<open>
  The external collaborators, as functions of the arguments the source passes them:
  \<^verbatim>\<open>fs.readFile\<close>, \<^verbatim>\<open>fs.writeFile\<close>, \<^verbatim>\<open>fs.writeFileSync\<close> (its result is the
  exception it throws, if any), \<^verbatim>\<open>nunjucks.render\<close> (which also sees the globals
  registered before), \<^verbatim>\<open>pretty\<close>, \<^verbatim>\<open>sass.renderSync\<close>, \<^verbatim>\<open>PurgeCSS.purge\<close>,
  \<^verbatim>\<open>postcss([autoprefixer]).process\<close> (the prefixed text and its warnings),
  \<^verbatim>\<open>transformFileAsync\<close>, \<^verbatim>\<open>UglifyJS.minify\<close> (the \<^verbatim>\<open>code\<close> field of its result,
  undefined when it reports an error) and \<^verbatim>\<open>path.basename\<close>.
  \<open>map_write_first\<close> says which of the two concurrent writes of the style compiler
  calls back first; \<open>fanout_schedule\<close> is the order in which the event loop runs the
  pending reactions of the per-file fan-out (see \<open>step\<close> below).
\<close>

text \<open>
  The reactions of the fan-out of lines 92 to 108, for the purge result with the given
  index: \<open>Prefixed\<close> is the prefixer's promise settling (its \<^verbatim>\<open>then\<close> handler runs),
  \<open>Resumed\<close> is the \<^verbatim>\<open>async\<close> callback going on after its \<^verbatim>\<open>await\<close>.
\<close>

datatype step = Prefixed nat | Resumed nat

record env =
  fs_readFile :: "string option \<Rightarrow> string reply"
  fs_writeFile :: "string option \<Rightarrow> string option \<Rightarrow> unit reply"
  fs_writeFileSync :: "string option \<Rightarrow> string \<Rightarrow> error option"
  nunjucks_render :: "(string \<times> jsval) list \<Rightarrow> string \<Rightarrow> (string \<times> jsval) list \<Rightarrow> string reply"
  pretty :: "string option \<Rightarrow> error + string"
  sass_renderSync :: "string \<Rightarrow> string \<Rightarrow> jsval \<Rightarrow> error + sass_result"
  purgecss_purge :: "string list option \<Rightarrow> string list option \<Rightarrow> jsval \<Rightarrow> purge_result list reply"
  postcss_process :: "string \<Rightarrow> (string \<times> string list) reply"
  transformFileAsync :: "string \<Rightarrow> string list \<Rightarrow> string reply"
  UglifyJS_minify :: "string \<Rightarrow> string option \<Rightarrow> string option"
  path_basename :: "string \<Rightarrow> string"
  map_write_first :: bool
  fanout_schedule :: "purge_result list \<Rightarrow> step list"

section \<open>compileNunjucks\<close>

text \<open>
  The callback of \<^verbatim>\<open>fs.writeFile\<close> in \<open>compileNunjucks\<close>: reject on an error, resolve
  otherwise. A synchronous exception of \<^verbatim>\<open>fs.writeFile\<close> leaves the render callback.
\<close>

definition nunjucks_write :: "env \<Rightarrow> string option \<Rightarrow> string \<Rightarrow> event list" where
  "nunjucks_write env out html =
     WriteFile out (Some html) #
     (case fs_writeFile env out (Some html) of
        Throws e \<Rightarrow> [Uncaught e]
      | Fails e \<Rightarrow> [WriteDone out (Some e), Reject e]
      | Succeeds _ \<Rightarrow> [WriteDone out None, Resolve])"

text \<open>The callback of \<^verbatim>\<open>nunjucks.render\<close>, lines 31 to 45.\<close>

definition nunjucks_rendered :: "env \<Rightarrow> string option \<Rightarrow> string reply \<Rightarrow> event list" where
  "nunjucks_rendered env out r =
     (case r of
        Throws e \<Rightarrow> [Reject e]
      | Fails e \<Rightarrow> [Reject e]
      | Succeeds res \<Rightarrow>
          ConsoleLog (''Beautifying '' @ show_opt out @ '' from Nunjucks'') #
          Pretty (Some res) #
          (case pretty env (Some res) of
             Inl e \<Rightarrow> [Uncaught e]
           | Inr html \<Rightarrow> nunjucks_write env out html))"

text \<open>
  The executor of the promise of \<open>compileNunjucks\<close>, lines 22 to 46. An exception thrown
  inside a promise executor is caught by the promise constructor and rejects the promise.
\<close>

definition compileNunjucks :: "env \<Rightarrow> nunjucks_config \<Rightarrow> event list" where
  "compileNunjucks env c =
     (if falsy (inputPath c) then [Reject (Error ''No inputPath provided to compileNunjucks'')]
      else if falsy (outputPath c) then [Reject (Error ''No outputPath provided to compileNunjucks'')]
      else case templates c of
        None \<Rightarrow> [Reject (Error ''No templates provided to compileNunjucks'')]
      | Some ts \<Rightarrow>
          ConsoleLog (''Compiling Nunjucks templates from '' @ show_opt (inputPath c)) #
          map (\<lambda>(k, v). AddGlobal ts k v) (with_default [] (globalVars c)) @
          Render (show_opt (inputPath c)) (with_default [] (data c)) #
          nunjucks_rendered env (outputPath c)
            (nunjucks_render env (with_default [] (globalVars c))
               (show_opt (inputPath c)) (with_default [] (data c))))"

section \<open>babelAndMinify\<close>

text \<open>Lines 116 to 119: the preset list handed to the transformer.\<close>

definition babel_presets :: "jsval option \<Rightarrow> string list" where
  "babel_presets m =
     [''@babel/env''] @ (if with_default (JBool True) m = JBool True then [''minify''] else [])"

text \<open>
  The \<^verbatim>\<open>then\<close> handler of the transformation, lines 127 to 143: it resolves when the
  file is written and only logs a write error.
\<close>

definition babel_write :: "env \<Rightarrow> string option \<Rightarrow> string \<Rightarrow> event list" where
  "babel_write env out code =
     WriteFile out (Some code) #
     (case fs_writeFile env out (Some code) of
        Throws e \<Rightarrow> [UnhandledRejection e]
      | Fails e \<Rightarrow> [WriteDone out (Some e), ConsoleLog (error_text e)]
      | Succeeds _ \<Rightarrow> [WriteDone out None, Resolve])"

text \<open>
  Lines 111 to 145. The two checks throw out of the function itself; the executor takes
  \<^verbatim>\<open>resolve\<close> only, and the promise made by \<^verbatim>\<open>then\<close> has no rejection handler.
\<close>

definition babelAndMinify :: "env \<Rightarrow> babel_config \<Rightarrow> event list" where
  "babelAndMinify env c =
     (if falsy (inputPath c) then [Throw (Error ''No inputPath provided to babelAndMinify'')]
      else if falsy (outputPath c) then [Throw (Error ''No outputPath provided to babelAndMinify'')]
      else
        Transform (show_opt (inputPath c)) (babel_presets (minify c)) #
        (case transformFileAsync env (show_opt (inputPath c)) (babel_presets (minify c)) of
           Throws e \<Rightarrow> [Reject e]
         | Fails e \<Rightarrow> [UnhandledRejection e]
         | Succeeds code \<Rightarrow> babel_write env (outputPath c) code))"

section \<open>uglify and beautifyHtml\<close>

text \<open>
  The callback of \<^verbatim>\<open>fs.writeFile\<close> in both functions: \<^verbatim>\<open>if (err) reject(err); resolve();\<close>
\<close>

definition write_back :: "env \<Rightarrow> string option \<Rightarrow> string option \<Rightarrow> event list" where
  "write_back env out text =
     WriteFile out text #
     (case fs_writeFile env out text of
        Throws e \<Rightarrow> [Uncaught e]
      | Fails e \<Rightarrow> [WriteDone out (Some e), Reject e, Resolve]
      | Succeeds _ \<Rightarrow> [WriteDone out None, Resolve])"

text \<open>
  The rest of the callback of \<^verbatim>\<open>fs.readFile\<close> in \<open>uglify\<close>, lines 153 to 157, for the
  file contents \<open>d\<close> (undefined when the read failed). \<^verbatim>\<open>path.basename\<close> throws a
  TypeError on \<^verbatim>\<open>undefined\<close>.
\<close>

definition uglify_minify :: "env \<Rightarrow> io_config \<Rightarrow> string option \<Rightarrow> event list" where
  "uglify_minify env c d =
     (case inputPath c of
        None \<Rightarrow> [Uncaught (TypeError ''The path argument must be of type string'')]
      | Some p \<Rightarrow>
          Minify (path_basename env p) d #
          write_back env (outputPath c) (UglifyJS_minify env (path_basename env p) d))"

text \<open>
  Lines 147 to 159. \<^verbatim>\<open>reject\<close> does not leave the executor or the callback: the
  statements after it run.
\<close>

definition uglify :: "env \<Rightarrow> io_config \<Rightarrow> event list" where
  "uglify env c =
     (if falsy (inputPath c) then [Reject (Error ''No input path provided to uglify'')] else []) @
     (if falsy (outputPath c) then [Reject (Error ''No output path provided to uglify'')] else []) @
     ConsoleLog (''Minifying '' @ show_opt (inputPath c)) #
     ReadFile (inputPath c) #
     (case fs_readFile env (inputPath c) of
        Throws e \<Rightarrow> [Reject e]
      | Fails e \<Rightarrow> Reject e # uglify_minify env c None
      | Succeeds d \<Rightarrow> uglify_minify env c (Some d))"

text \<open>The rest of the callback of \<^verbatim>\<open>fs.readFile\<close> in \<open>beautifyHtml\<close>, lines 167 to 171.\<close>

definition beautify_format :: "env \<Rightarrow> io_config \<Rightarrow> string option \<Rightarrow> event list" where
  "beautify_format env c d =
     Pretty d #
     (case pretty env d of
        Inl e \<Rightarrow> [Uncaught e]
      | Inr html \<Rightarrow> write_back env (outputPath c) (Some html))"

text \<open>Lines 161 to 173.\<close>

definition beautifyHtml :: "env \<Rightarrow> io_config \<Rightarrow> event list" where
  "beautifyHtml env c =
     (if falsy (inputPath c) then [Reject (Error ''No input path provided to beautifyHtml'')] else []) @
     (if falsy (outputPath c) then [Reject (Error ''No output path provided to beautifyHtml'')] else []) @
     ConsoleLog (''Beautifying HTML for '' @ show_opt (inputPath c)) #
     ReadFile (inputPath c) #
     (case fs_readFile env (inputPath c) of
        Throws e \<Rightarrow> [Reject e]
      | Fails e \<Rightarrow> Reject e # beautify_format env c None
      | Succeeds d \<Rightarrow> beautify_format env c (Some d))"

section \<open>compileSassAndPurgeCss\<close>

text \<open>
  The helper \<^verbatim>\<open>write\<close>, lines 65 to 72, makes one promise per file: it is rejected at once
  when \<^verbatim>\<open>fs.writeFile\<close> throws inside the executor, and settled by the callback
  otherwise (\<^verbatim>\<open>reject(err)\<close> first, so the \<^verbatim>\<open>resolve()\<close> after it has no effect).
  A started write is its path with the reply of \<^verbatim>\<open>fs.writeFile\<close>.
\<close>

type_synonym started_write = "string option \<times> unit reply"

fun throws :: "'a reply \<Rightarrow> bool" where
  "throws (Throws _) = True"
| "throws _ = False"

text \<open>
  The order in which the promises of the two concurrent writes settle: a promise whose
  executor threw is rejected before any callback fires; the environment orders the
  callbacks.
\<close>

definition settle_order :: "env \<Rightarrow> started_write \<Rightarrow> started_write \<Rightarrow> started_write list" where
  "settle_order env w1 w2 =
     (if throws (snd w1) then [w1, w2]
      else if throws (snd w2) then [w2, w1]
      else if map_write_first env then [w2, w1]
      else [w1, w2])"

text \<open>Callbacks of writes that fire after \<^verbatim>\<open>Promise.all\<close> has already rejected.\<close>

fun late_writes :: "started_write list \<Rightarrow> event list" where
  "late_writes [] = []"
| "late_writes ((p, Throws e) # ws) = late_writes ws"
| "late_writes ((p, Fails e) # ws) = WriteDone p (Some e) # late_writes ws"
| "late_writes ((p, Succeeds u) # ws) = WriteDone p None # late_writes ws"

text \<open>
  \<^verbatim>\<open>await Promise.all([cssFinished, cssSourceMapFinished])\<close>, line 82, over the writes
  in the order their promises settle: the first rejection makes the \<^verbatim>\<open>await\<close> throw,
  which rejects the promise of the \<^verbatim>\<open>async\<close> function; the rest of the function
  \<open>k\<close> runs only after every write has called back without an error.
\<close>

fun await_writes :: "started_write list \<Rightarrow> event list \<Rightarrow> event list" where
  "await_writes [] k = k"
| "await_writes ((p, Succeeds u) # ws) k = WriteDone p None # await_writes ws k"
| "await_writes ((p, Fails e) # ws) k = WriteDone p (Some e) # Reject e # late_writes ws"
| "await_writes ((p, Throws e) # ws) k = Reject e # late_writes ws"

text \<open>A started write whose promise nobody waits for.\<close>

fun unawaited_write :: "started_write \<Rightarrow> event list" where
  "unawaited_write (p, Throws e) = [UnhandledRejection e]"
| "unawaited_write (p, Fails e) = [WriteDone p (Some e), UnhandledRejection e]"
| "unawaited_write (p, Succeeds u) = [WriteDone p None]"

text \<open>
  Where one \<^verbatim>\<open>async\<close> callback of \<^verbatim>\<open>forEach\<close> stands: its prefixer is still working;
  or the inner promise it awaits is settled (rejected with an error, or resolved with the
  prefixed text) and the callback has not gone on yet; or it has ended, or will never go
  on.
\<close>

datatype waiting = Prefixing | Ready "error + string" | Ended

text \<open>
  The callback up to its \<^verbatim>\<open>await\<close>, lines 94 and 95: the executor of the inner promise
  calls the prefixer. When that call throws, the promise constructor rejects the inner
  promise at once.
\<close>

definition fanout_start :: "env \<Rightarrow> purge_result \<Rightarrow> waiting" where
  "fanout_start env r =
     (case postcss_process env (result_css r) of
        Throws e \<Rightarrow> Ready (Inl e)
      | Fails e \<Rightarrow> Prefixing
      | Succeeds x \<Rightarrow> Prefixing)"

text \<open>
  The prefixer's promise settles, lines 95 to 100. On success the \<^verbatim>\<open>then\<close> handler
  logs the warnings and resolves the inner promise with the prefixed text. The inner
  promise has no \<^verbatim>\<open>reject\<close>: when the prefixer fails, the promise made by \<^verbatim>\<open>then\<close>
  is rejected with nobody to observe it, and the callback never goes on.
\<close>

definition prefixer_settles :: "env \<Rightarrow> purge_result \<Rightarrow> event list \<times> waiting" where
  "prefixer_settles env r =
     (case postcss_process env (result_css r) of
        Throws e \<Rightarrow> ([], Ended)
      | Fails e \<Rightarrow> ([UnhandledRejection e], Ended)
      | Succeeds (prefixed, warnings) \<Rightarrow> (map ConsoleWarn warnings, Ready (Inr prefixed)))"

text \<open>
  The callback goes on after its \<^verbatim>\<open>await\<close>, lines 94 and 103 to 107: a rejected inner
  promise makes the \<^verbatim>\<open>await\<close> throw, which rejects the promise of the callback, that
  \<^verbatim>\<open>forEach\<close> has dropped; otherwise the file of the result is overwritten with the
  prefixed text. \<^verbatim>\<open>fs.writeFileSync\<close> ignores the function given as its third argument
  and throws its errors.
\<close>

definition callback_resumes :: "env \<Rightarrow> purge_result \<Rightarrow> error + string \<Rightarrow> event list" where
  "callback_resumes env r x =
     (case x of
        Inl e \<Rightarrow> [UnhandledRejection e]
      | Inr prefixed \<Rightarrow>
          WriteFileSync (result_file r) prefixed #
          (case fs_writeFileSync env (result_file r) prefixed of
             None \<Rightarrow> []
           | Some e \<Rightarrow> [UnhandledRejection e]))"

text \<open>
  The event loop runs the reactions in the order of the schedule. A reaction runs only
  when it is due: a prefixer settles once, and a callback goes on once, after its inner
  promise is settled. A step that is not due is skipped.
\<close>

fun run_fanout :: "env \<Rightarrow> purge_result list \<Rightarrow> waiting list \<Rightarrow> step list \<Rightarrow> event list" where
  "run_fanout env rs ws [] = []"
| "run_fanout env rs ws (Prefixed i # ss) =
     (if i < length rs \<and> i < length ws \<and> ws ! i = Prefixing
      then fst (prefixer_settles env (rs ! i)) @
           run_fanout env rs (ws[i := snd (prefixer_settles env (rs ! i))]) ss
      else run_fanout env rs ws ss)"
| "run_fanout env rs ws (Resumed i # ss) =
     (case (if i < length rs \<and> i < length ws then ws ! i else Ended) of
        Ready x \<Rightarrow> callback_resumes env (rs ! i) x @ run_fanout env rs (ws[i := Ended]) ss
      | Prefixing \<Rightarrow> run_fanout env rs ws ss
      | Ended \<Rightarrow> run_fanout env rs ws ss)"

text \<open>
  Lines 85 to 108. Each callback of \<^verbatim>\<open>forEach\<close> runs up to its \<^verbatim>\<open>await\<close> (the call of
  the prefixer) and is suspended; \<^verbatim>\<open>forEach\<close> drops the promises of the callbacks, so
  the function returns, and its promise is fulfilled, before any reaction of the fan-out
  runs.
\<close>

definition purge_and_prefix :: "env \<Rightarrow> sass_config \<Rightarrow> event list" where
  "purge_and_prefix env c =
     ConsoleLog (''Purging unused CSS for '' @ show_opt (destCssPath c)) #
     Purge (purgeCssContent c) (cssFilesToPurge c) (with_default (JBool True) (purgeCssSourceMap c)) #
     (case purgecss_purge env (purgeCssContent c) (cssFilesToPurge c)
             (with_default (JBool True) (purgeCssSourceMap c)) of
        Throws e \<Rightarrow> [Reject e]
      | Fails e \<Rightarrow> [Reject e]
      | Succeeds rs \<Rightarrow>
          map (\<lambda>r. Autoprefix (result_css r)) rs @
          Resolve #
          run_fanout env rs (map (fanout_start env) rs) (fanout_schedule env rs))"

text \<open>
  Lines 74 to 82 for the compiled style sheet \<open>res\<close>. \<^verbatim>\<open>new Promise()\<close> on line 80 has no
  executor, so the constructor throws a TypeError there.
\<close>

definition write_compiled :: "env \<Rightarrow> sass_config \<Rightarrow> sass_result \<Rightarrow> event list" where
  "write_compiled env c res =
     WriteFile (destCssPath c) (Some (css res)) #
     (if with_default (JBool True) (sassSourceMap c) = JBool True then
        WriteFile (Some (show_opt (destCssPath c) @ ''.map'')) (map_data res) #
        await_writes
          (settle_order env
             (destCssPath c, fs_writeFile env (destCssPath c) (Some (css res)))
             (Some (show_opt (destCssPath c) @ ''.map''),
              fs_writeFile env (Some (show_opt (destCssPath c) @ ''.map'')) (map_data res)))
          (purge_and_prefix env c)
      else
        Reject (TypeError ''Promise resolver undefined is not a function'') #
        unawaited_write (destCssPath c, fs_writeFile env (destCssPath c) (Some (css res))))"

text \<open>Lines 48 to 109. An exception in an \<^verbatim>\<open>async\<close> function rejects its promise.\<close>

definition compileSassAndPurgeCss :: "env \<Rightarrow> sass_config \<Rightarrow> event list" where
  "compileSassAndPurgeCss env c =
     (if falsy (srcSassPath c) then [Reject (Error ''No srcSassPath provided to compileSassAndPurgeCss'')]
      else if falsy (destCssPath c) then [Reject (Error ''No destCssPath provided to compileSassAndPurgeCss'')]
      else
        ConsoleLog (''Rendering Sass to CSS from '' @ show_opt (srcSassPath c)) #
        SassRenderSync (show_opt (srcSassPath c)) (show_opt (destCssPath c))
          (with_default (JBool True) (sassSourceMap c)) #
        (case sass_renderSync env (show_opt (srcSassPath c)) (show_opt (destCssPath c))
                (with_default (JBool True) (sassSourceMap c)) of
           Inl e \<Rightarrow> [Reject e]
         | Inr res \<Rightarrow> write_compiled env c res))"

section \<open>A sample environment\<close>

text \<open>
  A file system on which \<^verbatim>\<open>missing.js\<close> cannot be read, every write of a text to a
  path succeeds and a call with an undefined path or undefined data throws a TypeError;
  the libraries succeed except on the inputs named \<^verbatim>\<open>broken\<close>, and the minifier
  returns no code for undefined contents. The prefixers of the fan-out all settle before
  the first callback goes on.
\<close>

definition sample_env :: env where
  "sample_env = \<lparr>
     fs_readFile = (\<lambda>p. case p of
         None \<Rightarrow> Throws (TypeError ''The path argument must be of type string'')
       | Some f \<Rightarrow> if f = ''missing.js'' then Fails (Error ''ENOENT'') else Succeeds ''var answer = 42;''),
     fs_writeFile = (\<lambda>p d. case p of
         None \<Rightarrow> Throws (TypeError ''The path argument must be of type string'')
       | Some f \<Rightarrow> (case d of
             None \<Rightarrow> Throws (TypeError ''The data argument must be of type string'')
           | Some t \<Rightarrow> Succeeds ())),
     fs_writeFileSync = (\<lambda>p d. case p of
         None \<Rightarrow> Some (TypeError ''The path argument must be of type string'')
       | Some f \<Rightarrow> None),
     nunjucks_render = (\<lambda>g p d.
         if p = ''broken.njk'' then Fails (Error ''Template render error'') else Succeeds ''<p>Acme</p>''),
     pretty = (\<lambda>t. case t of
         None \<Rightarrow> Inl (TypeError ''expected a string'')
       | Some h \<Rightarrow> Inr h),
     sass_renderSync = (\<lambda>s d m.
         if s = ''broken.scss'' then Inl (Error ''Undefined variable'')
         else Inr \<lparr>css = ''.used{color:red}.unused{color:blue}'',
                   map_data = (if m = JBool True then Some ''{}'' else None)\<rparr>),
     purgecss_purge = (\<lambda>content files m.
         Succeeds [\<lparr>result_file = Some ''site.css'', result_css = ''.used{color:red}''\<rparr>]),
     postcss_process = (\<lambda>t. Succeeds (t, [])),
     transformFileAsync = (\<lambda>p presets.
         if p = ''broken.js'' then Fails (Error ''Unexpected token'') else Succeeds ''var answer=42;''),
     UglifyJS_minify = (\<lambda>n d. case d of None \<Rightarrow> None | Some t \<Rightarrow> Some ''var answer=42;''),
     path_basename = (\<lambda>p. p),
     map_write_first = False,
     fanout_schedule = (\<lambda>rs. map Prefixed [0..<length rs] @ map Resumed [0..<length rs])
   \<rparr>"

text \<open>The same with a purge of two style sheets and a prefixer that warns about each.\<close>

definition two_sheets_env :: env where
  "two_sheets_env = sample_env\<lparr>
     purgecss_purge := (\<lambda>content files m.
         Succeeds [\<lparr>result_file = Some ''site.css'', result_css = ''.used{color:red}''\<rparr>,
                   \<lparr>result_file = Some ''print.css'', result_css = ''.page{margin:0}''\<rparr>]),
     postcss_process := (\<lambda>t. Succeeds (t, [''no browsers for '' @ t]))\<rparr>"

text \<open>Sample calls with every required field present.\<close>

definition home_page :: nunjucks_config where
  "home_page = \<lparr>inputPath = Some ''home.njk'', outputPath = Some ''home.html'',
     templates = Some [''templates''], globalVars = Some [(''siteName'', JStr ''Acme'')],
     data = None\<rparr>"

definition site_styles :: sass_config where
  "site_styles = \<lparr>srcSassPath = Some ''site.scss'', destCssPath = Some ''site.css'',
     sassSourceMap = None, purgeCssContent = Some [''home.html''],
     cssFilesToPurge = Some [''site.css''], purgeCssSourceMap = None\<rparr>"

definition app_script :: babel_config where
  "app_script = \<lparr>inputPath = Some ''app.js'', outputPath = Some ''app.min.js'', minify = None\<rparr>"

definition app_file :: io_config where
  "app_file = \<lparr>inputPath = Some ''app.js'', outputPath = Some ''app.min.js''\<rparr>"

text \<open>
  Events that neither settle the promise nor overwrite a purged file: everything the
  style pipeline does before it returns.
\<close>

fun calm :: "event \<Rightarrow> bool" where
  "calm Resolve = False"
| "calm (Reject _) = False"
| "calm (Throw _) = False"
| "calm (WriteFileSync _ _) = False"
| "calm _ = True"

section \<open>Auxiliary facts about traces\<close>

lemma settled_add_globals:
  "settled (map (\<lambda>(k, v). AddGlobal ts k v) g @ t) = settled t"
  by (induction g) auto

lemma file_io_add_globals:
  "filter is_file_io (map (\<lambda>(k, v). AddGlobal ts k v) g) = []"
  by (induction g) auto

lemma calm_prefix:
  "list_all calm pre \<Longrightarrow>
     settled (pre @ Resolve # post) = Fulfilled
     \<and> takeWhile (\<lambda>e. e \<noteq> Resolve) (pre @ Resolve # post) = pre
     \<and> dropWhile (\<lambda>e. e \<noteq> Resolve) (pre @ Resolve # post) = Resolve # post
     \<and> filter is_overwrite pre = []"
proof (induction pre)
  case Nil
  then show ?case by simp
next
  case (Cons x pre)
  then show ?case by (cases x) simp_all
qed

lemma late_writes_no_purge: "\<not> list_ex is_purge (late_writes ws)"
  by (induction ws rule: late_writes.induct) simp_all

lemma unawaited_write_no_purge: "\<not> list_ex is_purge (unawaited_write w)"
  by (cases w rule: unawaited_write.cases) simp_all

text \<open>
  When the rest of the function runs after \<^verbatim>\<open>await Promise.all\<close>, every awaited write
  has called back without an error before it.
\<close>

lemma await_writes_all_done:
  "list_ex is_purge (await_writes ws k) \<Longrightarrow>
   await_writes ws k = map (\<lambda>w. WriteDone (fst w) None) ws @ k"
proof (induction ws k rule: await_writes.induct)
  case (1 k)
  then show ?case by simp
next
  case (2 p u ws k)
  then show ?case by simp
next
  case (3 p e ws k)
  then show ?case by (simp add: late_writes_no_purge)
next
  case (4 p e ws k)
  then show ?case by (simp add: late_writes_no_purge)
qed

text \<open>The shape of every run of the style pipeline in which the purge is started.\<close>

lemma purge_started:
  assumes "list_ex is_purge (compileSassAndPurgeCss env c)"
  shows "\<exists>(res :: sass_result) (ws :: started_write list). compileSassAndPurgeCss env c =
      [ConsoleLog (''Rendering Sass to CSS from '' @ show_opt (srcSassPath c)),
       SassRenderSync (show_opt (srcSassPath c)) (show_opt (destCssPath c)) (JBool True),
       WriteFile (destCssPath c) (Some (css res)),
       WriteFile (Some (show_opt (destCssPath c) @ ''.map'')) (map_data res)]
      @ map (\<lambda>w. WriteDone (fst w) None) ws @ purge_and_prefix env c
    \<and> set (map fst ws) = {destCssPath c, Some (show_opt (destCssPath c) @ ''.map'')}"
proof -
  let ?src = "show_opt (srcSassPath c)" and ?dst = "show_opt (destCssPath c)"
  let ?sm = "with_default (JBool True) (sassSourceMap c)"
  from assms have paths: "\<not> falsy (srcSassPath c)" "\<not> falsy (destCssPath c)"
    by (auto simp: compileSassAndPurgeCss_def split: if_splits)
  from assms paths obtain res where res: "sass_renderSync env ?src ?dst ?sm = Inr res"
    by (cases "sass_renderSync env ?src ?dst ?sm") (auto simp: compileSassAndPurgeCss_def)
  have sm: "?sm = JBool True"
  proof (rule ccontr)
    assume "?sm \<noteq> JBool True"
    with assms paths res show False
      by (simp add: compileSassAndPurgeCss_def write_compiled_def unawaited_write_no_purge)
  qed
  let ?ws = "settle_order env
       (destCssPath c, fs_writeFile env (destCssPath c) (Some (css res)))
       (Some (?dst @ ''.map''), fs_writeFile env (Some (?dst @ ''.map'')) (map_data res))"
  from assms paths res sm
  have "list_ex is_purge (await_writes ?ws (purge_and_prefix env c))"
    by (simp add: compileSassAndPurgeCss_def write_compiled_def)
  then have "await_writes ?ws (purge_and_prefix env c)
      = map (\<lambda>w. WriteDone (fst w) None) ?ws @ purge_and_prefix env c"
    by (rule await_writes_all_done)
  then have "compileSassAndPurgeCss env c =
      [ConsoleLog (''Rendering Sass to CSS from '' @ ?src), SassRenderSync ?src ?dst (JBool True),
       WriteFile (destCssPath c) (Some (css res)),
       WriteFile (Some (?dst @ ''.map'')) (map_data res)]
      @ map (\<lambda>w. WriteDone (fst w) None) ?ws @ purge_and_prefix env c"
    using paths res sm by (simp add: compileSassAndPurgeCss_def write_compiled_def)
  moreover have "set (map fst ?ws) = {destCssPath c, Some (?dst @ ''.map'')}"
    by (auto simp: settle_order_def)
  ultimately show ?thesis by blast
qed

lemma sample_purge_started: "list_ex is_purge (compileSassAndPurgeCss sample_env site_styles)"
  by (simp add: compileSassAndPurgeCss_def write_compiled_def purge_and_prefix_def
      settle_order_def site_styles_def sample_env_def)

section \<open>Missing configuration\<close>

text \<open>
  The checks of \<open>compileNunjucks\<close>, \<open>compileSassAndPurgeCss\<close> and \<open>babelAndMinify\<close>
  throw: the call fails with the error that names the first missing field and does
  nothing else, so it accesses no file.
\<close>

lemma throwing_checks_stop_the_call:
  "(falsy (inputPath na) \<longrightarrow>
      settled (compileNunjucks env na) = Rejected (Error ''No inputPath provided to compileNunjucks'')
      \<and> filter is_file_io (compileNunjucks env na) = [])
   \<and> (\<not> falsy (inputPath nb) \<and> falsy (outputPath nb) \<longrightarrow>
      settled (compileNunjucks env nb) = Rejected (Error ''No outputPath provided to compileNunjucks'')
      \<and> filter is_file_io (compileNunjucks env nb) = [])
   \<and> (\<not> falsy (inputPath nc) \<and> \<not> falsy (outputPath nc) \<and> templates nc = None \<longrightarrow>
      settled (compileNunjucks env nc) = Rejected (Error ''No templates provided to compileNunjucks'')
      \<and> filter is_file_io (compileNunjucks env nc) = [])
   \<and> (falsy (srcSassPath sa) \<longrightarrow>
      settled (compileSassAndPurgeCss env sa)
        = Rejected (Error ''No srcSassPath provided to compileSassAndPurgeCss'')
      \<and> filter is_file_io (compileSassAndPurgeCss env sa) = [])
   \<and> (\<not> falsy (srcSassPath sb) \<and> falsy (destCssPath sb) \<longrightarrow>
      settled (compileSassAndPurgeCss env sb)
        = Rejected (Error ''No destCssPath provided to compileSassAndPurgeCss'')
      \<and> filter is_file_io (compileSassAndPurgeCss env sb) = [])
   \<and> (falsy (inputPath ba) \<longrightarrow>
      settled (babelAndMinify env ba) = Threw (Error ''No inputPath provided to babelAndMinify'')
      \<and> filter is_file_io (babelAndMinify env ba) = [])
   \<and> (\<not> falsy (inputPath bb) \<and> falsy (outputPath bb) \<longrightarrow>
      settled (babelAndMinify env bb) = Threw (Error ''No outputPath provided to babelAndMinify'')
      \<and> filter is_file_io (babelAndMinify env bb) = [])"
  by (simp add: compileNunjucks_def compileSassAndPurgeCss_def babelAndMinify_def)

text \<open>
  Claim C1 asks that in all five stage functions a call without a required field fails
  at once and accesses no file. \<open>uglify\<close> and \<open>beautifyHtml\<close> do not do that: their
  checks call \<^verbatim>\<open>reject\<close> and do not return, so in a call with the input path present
  and the output path absent the promise is rejected with the error that names the
  output path, and then the input file is read all the same.
\<close>

theorem missing_output_path_still_reads:
  assumes "\<not> falsy (inputPath c)" and "falsy (outputPath c)"
  shows "settled (uglify env c) = Rejected (Error ''No output path provided to uglify'')
         \<and> take 3 (uglify env c) =
             [Reject (Error ''No output path provided to uglify''),
              ConsoleLog (''Minifying '' @ show_opt (inputPath c)), ReadFile (inputPath c)]
         \<and> filter is_file_io (uglify env c) \<noteq> []
         \<and> settled (beautifyHtml env c) = Rejected (Error ''No output path provided to beautifyHtml'')
         \<and> take 3 (beautifyHtml env c) =
             [Reject (Error ''No output path provided to beautifyHtml''),
              ConsoleLog (''Beautifying HTML for '' @ show_opt (inputPath c)), ReadFile (inputPath c)]
         \<and> filter is_file_io (beautifyHtml env c) \<noteq> []"
  using assms by (simp add: uglify_def beautifyHtml_def)

theorem missing_output_path_still_reads_witness:
  "\<not> falsy (inputPath (app_file\<lparr>outputPath := None\<rparr>))
   \<and> falsy (outputPath (app_file\<lparr>outputPath := None\<rparr>))
   \<and> settled (uglify sample_env (app_file\<lparr>outputPath := None\<rparr>))
       = Rejected (Error ''No output path provided to uglify'')
   \<and> take 3 (uglify sample_env (app_file\<lparr>outputPath := None\<rparr>)) =
       [Reject (Error ''No output path provided to uglify''),
        ConsoleLog ''Minifying app.js'', ReadFile (Some ''app.js'')]
   \<and> filter is_file_io (uglify sample_env (app_file\<lparr>outputPath := None\<rparr>)) \<noteq> []
   \<and> settled (beautifyHtml sample_env (app_file\<lparr>outputPath := None\<rparr>))
       = Rejected (Error ''No output path provided to beautifyHtml'')
   \<and> take 3 (beautifyHtml sample_env (app_file\<lparr>outputPath := None\<rparr>)) =
       [Reject (Error ''No output path provided to beautifyHtml''),
        ConsoleLog ''Beautifying HTML for app.js'', ReadFile (Some ''app.js'')]
   \<and> filter is_file_io (beautifyHtml sample_env (app_file\<lparr>outputPath := None\<rparr>)) \<noteq> []"
  using missing_output_path_still_reads [of "app_file\<lparr>outputPath := None\<rparr>" sample_env]
  by (simp add: app_file_def)

section \<open>The template renderer\<close>

text \<open>
  Claim C6. In a call of \<open>compileNunjucks\<close> with every required field present, when the
  template engine hands a render error to the callback, the returned promise is rejected
  with exactly that error, and the call accesses no file: in particular nothing is
  written to the output path.
\<close>

theorem render_error_rejects_without_write:
  assumes "\<not> falsy (inputPath c)" and "\<not> falsy (outputPath c)" and "templates c = Some ts"
    and "nunjucks_render env (with_default [] (globalVars c)) (show_opt (inputPath c))
           (with_default [] (data c)) = Fails e"
  shows "settled (compileNunjucks env c) = Rejected e
         \<and> filter is_file_io (compileNunjucks env c) = []"
  using assms
  by (simp add: compileNunjucks_def nunjucks_rendered_def settled_add_globals file_io_add_globals)

theorem render_error_rejects_without_write_witness:
  "nunjucks_render sample_env [(''siteName'', JStr ''Acme'')] ''broken.njk'' []
     = Fails (Error ''Template render error'')
   \<and> settled (compileNunjucks sample_env (home_page\<lparr>inputPath := Some ''broken.njk''\<rparr>))
     = Rejected (Error ''Template render error'')
   \<and> filter is_file_io (compileNunjucks sample_env (home_page\<lparr>inputPath := Some ''broken.njk''\<rparr>)) = []"
  using render_error_rejects_without_write
    [of "home_page\<lparr>inputPath := Some ''broken.njk''\<rparr>" "[''templates'']" sample_env
        "Error ''Template render error''"]
  by (simp add: home_page_def sample_env_def)

section \<open>The script transpiler\<close>

text \<open>
  Claim C7. A call of \<open>babelAndMinify\<close> that omits the minify flag behaves exactly as the
  call with the flag set to true: the flag defaults to true, the preset list is the
  baseline preset followed by the minify preset, and when both paths are present that
  list is what the transformer is called with.
\<close>

theorem minify_defaults_to_true:
  "babelAndMinify env (c\<lparr>minify := None\<rparr>) = babelAndMinify env (c\<lparr>minify := Some (JBool True)\<rparr>)
   \<and> babel_presets None = [''@babel/env'', ''minify'']
   \<and> (\<not> falsy (inputPath c) \<and> \<not> falsy (outputPath c) \<and> minify c = None \<longrightarrow>
        take 1 (babelAndMinify env c)
          = [Transform (show_opt (inputPath c)) [''@babel/env'', ''minify'']])"
  by (simp add: babelAndMinify_def babel_presets_def split: reply.splits)

theorem minify_defaults_to_true_witness:
  "minify app_script = None
   \<and> take 1 (babelAndMinify sample_env app_script) = [Transform ''app.js'' [''@babel/env'', ''minify'']]
   \<and> babelAndMinify sample_env app_script
       = babelAndMinify sample_env (app_script\<lparr>minify := Some (JBool True)\<rparr>)"
  using minify_defaults_to_true [of sample_env app_script]
  by (simp add: app_script_def babelAndMinify_def babel_presets_def)

text \<open>
  Claim C10. The minify preset is in the list exactly when the flag, after its default,
  is the boolean true. For every given value other than true, the truthy \<open>1\<close> and
  \<open>'yes'\<close> among them, the list is the baseline preset alone, and that is what the
  transformer is called with. (An omitted flag is not such a value: it takes the default
  of claim C7.)
\<close>

theorem minify_only_when_true:
  "(''minify'' \<in> set (babel_presets m)) = (with_default (JBool True) m = JBool True)
   \<and> babel_presets (Some (JNum 1)) = [''@babel/env'']
   \<and> babel_presets (Some (JStr ''yes'')) = [''@babel/env'']
   \<and> (v \<noteq> JBool True \<longrightarrow> babel_presets (Some v) = [''@babel/env''])
   \<and> (v \<noteq> JBool True \<and> minify c = Some v \<and> \<not> falsy (inputPath c) \<and> \<not> falsy (outputPath c) \<longrightarrow>
        take 1 (babelAndMinify env c) = [Transform (show_opt (inputPath c)) [''@babel/env'']])"
  by (simp add: babelAndMinify_def babel_presets_def)

theorem minify_only_when_true_witness:
  "JStr ''yes'' \<noteq> JBool True
   \<and> babel_presets (Some (JStr ''yes'')) = [''@babel/env'']
   \<and> take 1 (babelAndMinify sample_env (app_script\<lparr>minify := Some (JStr ''yes'')\<rparr>))
       = [Transform ''app.js'' [''@babel/env'']]"
  using minify_only_when_true
    [of None "JStr ''yes''" "app_script\<lparr>minify := Some (JStr ''yes'')\<rparr>" sample_env]
  by (simp add: app_script_def)

text \<open>
  Claim C3 asks that a failing transformation rejects the promise of \<open>babelAndMinify\<close>
  with the transform error. The code does not do that: the executor takes no \<^verbatim>\<open>reject\<close>
  and the \<^verbatim>\<open>then\<close> has no rejection handler, so with both paths present a failing
  transformation leaves the returned promise pending for ever, and the error only
  appears as the rejection of a promise nobody holds.
\<close>

theorem transform_error_never_settles:
  assumes "\<not> falsy (inputPath c)" and "\<not> falsy (outputPath c)"
    and "transformFileAsync env (show_opt (inputPath c)) (babel_presets (minify c)) = Fails e"
  shows "settled (babelAndMinify env c) = Pending
         \<and> babelAndMinify env c =
             [Transform (show_opt (inputPath c)) (babel_presets (minify c)), UnhandledRejection e]"
  using assms by (simp add: babelAndMinify_def)

theorem transform_error_never_settles_witness:
  "transformFileAsync sample_env ''broken.js'' [''@babel/env'', ''minify''] = Fails (Error ''Unexpected token'')
   \<and> settled (babelAndMinify sample_env (app_script\<lparr>inputPath := Some ''broken.js''\<rparr>)) = Pending
   \<and> settled (babelAndMinify sample_env (app_script\<lparr>inputPath := Some ''broken.js''\<rparr>))
       \<noteq> Rejected (Error ''Unexpected token'')"
  using transform_error_never_settles
    [of "app_script\<lparr>inputPath := Some ''broken.js''\<rparr>" sample_env "Error ''Unexpected token''"]
  by (simp add: app_script_def sample_env_def babel_presets_def)

section \<open>The script minifier\<close>

text \<open>
  Claim C9 ends with the output file being possibly modified although the call reported
  a failure. That does not happen: the minifier has no code for undefined contents, and
  \<^verbatim>\<open>fs.writeFile\<close> throws on undefined data before it touches the file. In the call
  below the read fails, the write is attempted with undefined data, the attempt throws,
  and no write is ever completed.
\<close>

theorem uglify_read_error_counterexample:
  "fs_readFile sample_env (Some ''missing.js'') = Fails (Error ''ENOENT'')
   \<and> uglify sample_env (app_file\<lparr>inputPath := Some ''missing.js''\<rparr>) =
       [ConsoleLog ''Minifying missing.js'', ReadFile (Some ''missing.js''),
        Reject (Error ''ENOENT''), Minify ''missing.js'' None,
        WriteFile (Some ''app.min.js'') None,
        Uncaught (TypeError ''The data argument must be of type string'')]
   \<and> WriteDone (Some ''app.min.js'') None
       \<notin> set (uglify sample_env (app_file\<lparr>inputPath := Some ''missing.js''\<rparr>))"
  by (simp add: uglify_def uglify_minify_def write_back_def app_file_def sample_env_def)

text \<open>
  Claim C9, amended: in a call of \<open>uglify\<close> with both paths present, when
  \<^verbatim>\<open>fs.readFile\<close> hands a read error to its callback, the returned promise is rejected
  with that error, and the callback goes on after the rejection: the minifier is called
  on the undefined contents, and \<^verbatim>\<open>fs.writeFile\<close> is called on the output path with
  the minifier's code. With a minifier that has no code for undefined contents and a
  file system that throws on undefined data, that call throws out of the callback and
  nothing more happens: the output file is not modified.
\<close>

theorem uglify_read_error_falls_through:
  assumes "inputPath c = Some p" and "p \<noteq> []" and "outputPath c = Some out" and "out \<noteq> []"
    and "fs_readFile env (Some p) = Fails e"
  shows "settled (uglify env c) = Rejected e
         \<and> take 5 (uglify env c) =
             [ConsoleLog (''Minifying '' @ p), ReadFile (Some p), Reject e,
              Minify (path_basename env p) None,
              WriteFile (Some out) (UglifyJS_minify env (path_basename env p) None)]
         \<and> (UglifyJS_minify env (path_basename env p) None = None
              \<and> fs_writeFile env (Some out) None = Throws x
              \<longrightarrow> uglify env c =
                   [ConsoleLog (''Minifying '' @ p), ReadFile (Some p), Reject e,
                    Minify (path_basename env p) None, WriteFile (Some out) None, Uncaught x])"
  using assms
  by (simp add: uglify_def uglify_minify_def write_back_def)

theorem uglify_read_error_falls_through_witness:
  "fs_readFile sample_env (Some ''missing.js'') = Fails (Error ''ENOENT'')
   \<and> UglifyJS_minify sample_env (path_basename sample_env ''missing.js'') None = None
   \<and> fs_writeFile sample_env (Some ''app.min.js'') None
       = Throws (TypeError ''The data argument must be of type string'')
   \<and> settled (uglify sample_env (app_file\<lparr>inputPath := Some ''missing.js''\<rparr>)) = Rejected (Error ''ENOENT'')
   \<and> uglify sample_env (app_file\<lparr>inputPath := Some ''missing.js''\<rparr>) =
       [ConsoleLog ''Minifying missing.js'', ReadFile (Some ''missing.js''),
        Reject (Error ''ENOENT''), Minify ''missing.js'' None,
        WriteFile (Some ''app.min.js'') None,
        Uncaught (TypeError ''The data argument must be of type string'')]"
  using uglify_read_error_falls_through
    [of "app_file\<lparr>inputPath := Some ''missing.js''\<rparr>" "''missing.js''" "''app.min.js''"
        sample_env "Error ''ENOENT''" "TypeError ''The data argument must be of type string''"]
  by (simp add: app_file_def sample_env_def)

section \<open>The style compiler and purger\<close>

text \<open>
  Claim C4 asks that a call of \<open>compileSassAndPurgeCss\<close> with the source map switched
  off still writes the style sheet and goes on to the purge. The code does not do that:
  with both paths present and \<^verbatim>\<open>sassSourceMap: false\<close>, the style sheet is compiled and
  its write is started, then line 80 throws a TypeError, the returned promise is rejected
  with it, and the purge is never started.
\<close>

theorem source_map_disabled_fails:
  assumes "\<not> falsy (srcSassPath c)" and "\<not> falsy (destCssPath c)"
    and "sassSourceMap c = Some (JBool False)"
    and "sass_renderSync env (show_opt (srcSassPath c)) (show_opt (destCssPath c)) (JBool False) = Inr res"
  shows "settled (compileSassAndPurgeCss env c)
           = Rejected (TypeError ''Promise resolver undefined is not a function'')
         \<and> filter is_purge (compileSassAndPurgeCss env c) = []
         \<and> take 4 (compileSassAndPurgeCss env c) =
             [ConsoleLog (''Rendering Sass to CSS from '' @ show_opt (srcSassPath c)),
              SassRenderSync (show_opt (srcSassPath c)) (show_opt (destCssPath c)) (JBool False),
              WriteFile (destCssPath c) (Some (css res)),
              Reject (TypeError ''Promise resolver undefined is not a function'')]"
  using assms
  by (cases "fs_writeFile env (destCssPath c) (Some (css res))")
     (simp_all add: compileSassAndPurgeCss_def write_compiled_def)

theorem source_map_disabled_fails_witness:
  "settled (compileSassAndPurgeCss sample_env (site_styles\<lparr>sassSourceMap := Some (JBool False)\<rparr>))
     = Rejected (TypeError ''Promise resolver undefined is not a function'')
   \<and> filter is_purge (compileSassAndPurgeCss sample_env (site_styles\<lparr>sassSourceMap := Some (JBool False)\<rparr>)) = []"
  using source_map_disabled_fails
    [of "site_styles\<lparr>sassSourceMap := Some (JBool False)\<rparr>" sample_env
        "\<lparr>css = ''.used{color:red}.unused{color:blue}'', map_data = None\<rparr>"]
  by (simp add: site_styles_def sample_env_def)

text \<open>
  Claim C5. In every run of \<open>compileSassAndPurgeCss\<close> in which the purge is started, the
  write of the compiled style sheet and the write of its source map have both called back
  without an error before the purge is called.
\<close>

theorem writes_complete_before_purge:
  assumes "list_ex is_purge (compileSassAndPurgeCss env c)"
  shows "WriteDone (destCssPath c) None
           \<in> set (takeWhile (\<lambda>e. \<not> is_purge e) (compileSassAndPurgeCss env c))
         \<and> WriteDone (Some (show_opt (destCssPath c) @ ''.map'')) None
           \<in> set (takeWhile (\<lambda>e. \<not> is_purge e) (compileSassAndPurgeCss env c))"
proof -
  from purge_started [OF assms] obtain res :: sass_result and ws :: "started_write list" where
    t: "compileSassAndPurgeCss env c =
      [ConsoleLog (''Rendering Sass to CSS from '' @ show_opt (srcSassPath c)),
       SassRenderSync (show_opt (srcSassPath c)) (show_opt (destCssPath c)) (JBool True),
       WriteFile (destCssPath c) (Some (css res)),
       WriteFile (Some (show_opt (destCssPath c) @ ''.map'')) (map_data res)]
      @ map (\<lambda>w. WriteDone (fst w) None) ws @ purge_and_prefix env c"
    and ws: "set (map fst ws) = {destCssPath c, Some (show_opt (destCssPath c) @ ''.map'')}"
    by blast
  have "takeWhile (\<lambda>e. \<not> is_purge e) (map (\<lambda>w. WriteDone (fst w) None) ws @ purge_and_prefix env c)
      = map (\<lambda>w. WriteDone (fst w) None) ws
        @ [ConsoleLog (''Purging unused CSS for '' @ show_opt (destCssPath c))]"
    by (subst takeWhile_append2) (auto simp: purge_and_prefix_def)
  then have "(\<lambda>p. WriteDone p None) ` set (map fst ws)
      \<subseteq> set (takeWhile (\<lambda>e. \<not> is_purge e) (compileSassAndPurgeCss env c))"
    by (auto simp: t)
  then show ?thesis using ws by auto
qed

theorem writes_complete_before_purge_witness:
  "list_ex is_purge (compileSassAndPurgeCss sample_env site_styles)
   \<and> WriteDone (Some ''site.css'') None
       \<in> set (takeWhile (\<lambda>e. \<not> is_purge e) (compileSassAndPurgeCss sample_env site_styles))
   \<and> WriteDone (Some ''site.css.map'') None
       \<in> set (takeWhile (\<lambda>e. \<not> is_purge e) (compileSassAndPurgeCss sample_env site_styles))"
  using sample_purge_started writes_complete_before_purge [OF sample_purge_started]
  by (simp add: site_styles_def)

text \<open>
  Claim C2. In every run of \<open>compileSassAndPurgeCss\<close> that reaches step 4 (the purge was
  started and delivered its results), the returned promise is fulfilled, and no purged
  file has been overwritten when it is fulfilled: every overwrite of step 4 comes after
  the fulfilment, whatever the order in which the reactions of the fan-out run.
\<close>

theorem resolves_before_overwrites:
  assumes "list_ex is_purge (compileSassAndPurgeCss env c)"
    and "purgecss_purge env (purgeCssContent c) (cssFilesToPurge c)
           (with_default (JBool True) (purgeCssSourceMap c)) = Succeeds rs"
  shows "settled (compileSassAndPurgeCss env c) = Fulfilled
         \<and> filter is_overwrite (takeWhile (\<lambda>e. e \<noteq> Resolve) (compileSassAndPurgeCss env c)) = []"
proof -
  from purge_started [OF assms(1)] obtain res :: sass_result and ws :: "started_write list" where
    t: "compileSassAndPurgeCss env c =
      [ConsoleLog (''Rendering Sass to CSS from '' @ show_opt (srcSassPath c)),
       SassRenderSync (show_opt (srcSassPath c)) (show_opt (destCssPath c)) (JBool True),
       WriteFile (destCssPath c) (Some (css res)),
       WriteFile (Some (show_opt (destCssPath c) @ ''.map'')) (map_data res)]
      @ map (\<lambda>w. WriteDone (fst w) None) ws @ purge_and_prefix env c"
    by blast
  let ?pre = "[ConsoleLog (''Rendering Sass to CSS from '' @ show_opt (srcSassPath c)),
       SassRenderSync (show_opt (srcSassPath c)) (show_opt (destCssPath c)) (JBool True),
       WriteFile (destCssPath c) (Some (css res)),
       WriteFile (Some (show_opt (destCssPath c) @ ''.map'')) (map_data res)]
      @ map (\<lambda>w. WriteDone (fst w) None) ws
      @ [ConsoleLog (''Purging unused CSS for '' @ show_opt (destCssPath c)),
         Purge (purgeCssContent c) (cssFilesToPurge c) (with_default (JBool True) (purgeCssSourceMap c))]
      @ map (\<lambda>r. Autoprefix (result_css r)) rs"
  let ?post = "run_fanout env rs (map (fanout_start env) rs) (fanout_schedule env rs)"
  have split: "compileSassAndPurgeCss env c = ?pre @ Resolve # ?post"
    using assms(2) by (simp add: t purge_and_prefix_def)
  have "list_all calm ?pre"
    by (auto simp: list_all_iff)
  from calm_prefix [OF this, of ?post] show ?thesis
    unfolding split by simp
qed

theorem resolves_before_overwrites_witness:
  "list_ex is_purge (compileSassAndPurgeCss sample_env site_styles)
   \<and> settled (compileSassAndPurgeCss sample_env site_styles) = Fulfilled
   \<and> filter is_overwrite (takeWhile (\<lambda>e. e \<noteq> Resolve) (compileSassAndPurgeCss sample_env site_styles)) = []
   \<and> dropWhile (\<lambda>e. e \<noteq> Resolve) (compileSassAndPurgeCss sample_env site_styles)
       = [Resolve, WriteFileSync (Some ''site.css'') ''.used{color:red}'']"
proof -
  have q: "purgecss_purge sample_env (purgeCssContent site_styles) (cssFilesToPurge site_styles)
           (with_default (JBool True) (purgeCssSourceMap site_styles))
        = Succeeds [\<lparr>result_file = Some ''site.css'', result_css = ''.used{color:red}''\<rparr>]"
    by (simp add: sample_env_def)
  have d: "dropWhile (\<lambda>e. e \<noteq> Resolve) (compileSassAndPurgeCss sample_env site_styles)
       = [Resolve, WriteFileSync (Some ''site.css'') ''.used{color:red}'']"
    by (simp add: compileSassAndPurgeCss_def write_compiled_def purge_and_prefix_def
        settle_order_def fanout_start_def prefixer_settles_def callback_resumes_def
        site_styles_def sample_env_def)
  show ?thesis
    using sample_purge_started d resolves_before_overwrites [OF sample_purge_started q]
    by simp
qed

text \<open>
  With two purge results whose prefixers settle one after the other, both handlers log
  their warnings before the first callback goes on: the overwrites follow the warnings
  of both files, and all of it follows the fulfilment of the returned promise.
\<close>

lemma two_sheets_fanout:
  "dropWhile (\<lambda>e. e \<noteq> Resolve) (compileSassAndPurgeCss two_sheets_env site_styles) =
     [Resolve,
      ConsoleWarn ''no browsers for .used{color:red}'',
      ConsoleWarn ''no browsers for .page{margin:0}'',
      WriteFileSync (Some ''site.css'') ''.used{color:red}'',
      WriteFileSync (Some ''print.css'') ''.page{margin:0}'']"
  by (simp add: compileSassAndPurgeCss_def write_compiled_def purge_and_prefix_def
      settle_order_def fanout_start_def prefixer_settles_def callback_resumes_def
      site_styles_def two_sheets_env_def sample_env_def upt_rec)

end
